theory Spec2Isabelle
  imports Main "HOL-Library.Word"
begin

section \<open>The standard output stream \<open>cout\<close>\<close>

text \<open>
  The program writes its diagnostics to \<open>std::cout\<close> and changes that stream's
  formatting state. The stream is modelled by the characters written so far and by the
  formatting state that decides how a string and a \<open>long\<close> are written: the field
  width (\<open>streamsize\<close>, a signed integer), the fill character, and the format flags of
  the basefield and the adjustfield together with \<open>showbase\<close>, \<open>showpos\<close> and
  \<open>uppercase\<close>. The remaining flags of \<open>ios_base\<close> (\<open>boolalpha\<close>, the floatfield,
  \<open>showpoint\<close>, \<open>skipws\<close>, \<open>unitbuf\<close>) have no part in this output.
\<close>

datatype fmtflag =
    ios_dec | ios_oct | ios_hex
  | ios_left | ios_right | ios_internal
  | ios_showbase | ios_showpos | ios_uppercase

record ostream =
  os_text :: string
  os_width :: int
  os_fill :: char
  os_flags :: "fmtflag set"

definition basefield :: "fmtflag set" where
  "basefield = {ios_dec, ios_oct, ios_hex}"

definition adjustfield :: "fmtflag set" where
  "adjustfield = {ios_left, ios_right, ios_internal}"

text \<open>\<open>ios_base::setf(fl, mask)\<close>: clear the flags of the mask, then set those of
  \<open>fl\<close> that lie in the mask.\<close>

definition setf :: "fmtflag set \<Rightarrow> fmtflag set \<Rightarrow> ostream \<Rightarrow> ostream" where
  "setf fl msk os = os\<lparr>os_flags := (os_flags os - msk) \<union> (fl \<inter> msk)\<rparr>"

text \<open>The manipulators \<open>std::hex\<close>, \<open>std::resetiosflags\<close>, \<open>std::setw\<close> and
  \<open>std::setfill\<close>.\<close>

definition hex :: "ostream \<Rightarrow> ostream" where
  "hex os = setf {ios_hex} basefield os"

definition resetiosflags :: "fmtflag set \<Rightarrow> ostream \<Rightarrow> ostream" where
  "resetiosflags msk os = setf {} msk os"

definition setw :: "int \<Rightarrow> ostream \<Rightarrow> ostream" where
  "setw n os = os\<lparr>os_width := n\<rparr>"

definition setfill :: "char \<Rightarrow> ostream \<Rightarrow> ostream" where
  "setfill c os = os\<lparr>os_fill := c\<rparr>"

text \<open>Unformatted output appends characters; \<open>std::endl\<close> writes a newline with
  \<open>put\<close> (and flushes, which the model does not observe).\<close>

definition put_raw :: "string \<Rightarrow> ostream \<Rightarrow> ostream" where
  "put_raw s os = os\<lparr>os_text := os_text os @ s\<rparr>"

definition endl :: "ostream \<Rightarrow> ostream" where
  "endl os = put_raw [CHR 0x0A] os"

text \<open>Formatted output fills the field with the fill character up to the stream's
  width and then resets the width to 0. A string is followed by the fill characters when
  the adjustfield is exactly \<open>left\<close>, and preceded by them otherwise.\<close>

definition fill_chars :: "int \<Rightarrow> char \<Rightarrow> string \<Rightarrow> string" where
  "fill_chars w f s = replicate (nat (w - int (length s))) f"

definition padded :: "ostream \<Rightarrow> string \<Rightarrow> string" where
  "padded os s =
     (if os_flags os \<inter> adjustfield = {ios_left}
      then s @ fill_chars (os_width os) (os_fill os) s
      else fill_chars (os_width os) (os_fill os) s @ s)"

definition put_str :: "string \<Rightarrow> ostream \<Rightarrow> ostream" where
  "put_str s os = (put_raw (padded os s) os)\<lparr>os_width := 0\<rparr>"

text \<open>Digits of a natural number in a base, most significant first, without leading
  zeros (\<open>0\<close> is the one digit \<open>0\<close>), in upper or lower case.\<close>

definition digit_char :: "bool \<Rightarrow> nat \<Rightarrow> char" where
  "digit_char up d = (if up then ''0123456789ABCDEF'' else ''0123456789abcdef'') ! d"

function digits :: "bool \<Rightarrow> nat \<Rightarrow> nat \<Rightarrow> string" where
  "digits up b n =
     (if n < b \<or> b < 2 then [digit_char up n]
      else digits up b (n div b) @ [digit_char up (n mod b)])"
  by pat_completeness auto
termination
  by (relation "measure (\<lambda>(up, b, n). n)") auto

declare digits.simps [simp del]

text \<open>The characters \<open>num_put\<close> produces for a \<open>long\<close>, before the field is filled;
  \<open>long\<close> has 32 bits on the Windows target of this code. With basefield exactly
  \<open>hex\<close> or \<open>oct\<close> the value is converted as unsigned (\<open>%lx\<close> or \<open>%lX\<close>, \<open>%lo\<close>),
  and \<open>showbase\<close> puts \<open>0x\<close>, \<open>0X\<close> or \<open>0\<close> before a value that is not 0; otherwise
  it is a signed decimal (\<open>%ld\<close>), with a \<open>+\<close> under \<open>showpos\<close>.\<close>

definition num_long :: "fmtflag set \<Rightarrow> 32 word \<Rightarrow> string" where
  "num_long fl v =
     (if fl \<inter> basefield = {ios_hex} then
        (if ios_showbase \<in> fl \<and> v \<noteq> 0
         then (if ios_uppercase \<in> fl then ''0X'' else ''0x'') else [])
        @ digits (ios_uppercase \<in> fl) 16 (unat v)
      else if fl \<inter> basefield = {ios_oct} then
        (if ios_showbase \<in> fl \<and> v \<noteq> 0 then ''0'' else []) @ digits False 8 (unat v)
      else if sint v < 0 then CHR ''-'' # digits False 10 (nat (- sint v))
      else (if ios_showpos \<in> fl then ''+'' else []) @ digits False 10 (nat (sint v)))"

text \<open>A number's field: the fill characters follow the number when the adjustfield is
  exactly \<open>left\<close>; they stand after the sign, or after \<open>0x\<close> or \<open>0X\<close>, when it is
  exactly \<open>internal\<close> and the number begins so; they precede the number otherwise.\<close>

definition padded_num :: "fmtflag set \<Rightarrow> int \<Rightarrow> char \<Rightarrow> string \<Rightarrow> string" where
  "padded_num fl w f s =
     (if fl \<inter> adjustfield = {ios_left} then s @ fill_chars w f s
      else if fl \<inter> adjustfield = {ios_internal} \<and> (take 1 s = ''-'' \<or> take 1 s = ''+'')
        then take 1 s @ fill_chars w f s @ drop 1 s
      else if fl \<inter> adjustfield = {ios_internal} \<and> (take 2 s = ''0x'' \<or> take 2 s = ''0X'')
        then take 2 s @ fill_chars w f s @ drop 2 s
      else fill_chars w f s @ s)"

definition long_field :: "fmtflag set \<Rightarrow> int \<Rightarrow> char \<Rightarrow> 32 word \<Rightarrow> string" where
  "long_field fl w f v = padded_num fl w f (num_long fl v)"

text \<open>\<open>operator<<(long)\<close>.\<close>

definition put_long :: "32 word \<Rightarrow> ostream \<Rightarrow> ostream" where
  "put_long v os =
     (put_raw (long_field (os_flags os) (os_width os) (os_fill os) v) os)\<lparr>os_width := 0\<rparr>"

text \<open>The stream as the C++ runtime initialises it: nothing written, width 0, fill
  \<open>' '\<close>, and of the flags above \<open>dec\<close> alone.\<close>

definition cout_init :: ostream where
  "cout_init = \<lparr>os_text = [], os_width = 0, os_fill = CHR '' '', os_flags = {ios_dec}\<rparr>"

section \<open>\<open>Util::checkStatus\<close> (Util.cpp)\<close>

text \<open>
  \<open>GSIT_STATUS\<close>, \<open>ApiStatus\<close>, \<open>ApiString\<close> and the macros \<open>GSIT_FAILED\<close> and
  \<open>GSIT_SUCCEEDED\<close> come from the header of the external GXP API, which is not part of
  the sources. \<open>GSIT_STATUS\<close> is taken as a 32-bit integer (the source casts it to
  \<open>long\<close>, and the error code, of the same type, is printed as such a value); an
  \<open>ApiStatus\<close> is the error code and the error string it hands out; the two macros
  are parameters of \<open>checkStatus\<close>.
\<close>

type_synonym gsit_status = "32 word"

record ApiStatus =
  errorCode :: gsit_status
  errorString :: string

definition getErrorCode :: "ApiStatus \<Rightarrow> gsit_status" where
  "getErrorCode st = errorCode st"

definition getErrorString :: "ApiStatus \<Rightarrow> string" where
  "getErrorString st = errorString st"

text \<open>The body of the \<open>if\<close> at Util.cpp lines 44 to 63. Its copies of the width
  and the fill (lines 45 and 46) hide the ones taken at lines 38 and 39, which are never
  read.\<close>

definition report :: "gsit_status \<Rightarrow> ApiStatus \<Rightarrow> string \<Rightarrow> ostream \<Rightarrow> ostream" where
  "report comm_status gxp_status error_string cout =
     (let ios_width = os_width cout;
          ios_fill = os_fill cout;
          c = endl (put_str '' >> ERROR <<'' cout);
          c = endl (put_long comm_status
                (setfill CHR ''0'' (setw 8 (hex (put_str ''Communication Error: 0x'' c)))));
          c = resetiosflags {ios_hex} c;
          c = endl (put_long (getErrorCode gxp_status)
                (setfill CHR ''0'' (setw 8 (hex (put_str ''GXP Error: 0x'' c)))));
          c = resetiosflags {ios_hex} c;
          c = (if length error_string \<noteq> 0
               then endl (put_str error_string (put_str ''GXP Error: '' c)) else c);
          c = endl (endl c);
          c = c\<lparr>os_fill := ios_fill\<rparr>;
          c = c\<lparr>os_width := ios_width\<rparr>
      in c)"

definition checkStatus ::
  "(gsit_status \<Rightarrow> bool) \<Rightarrow> (gsit_status \<Rightarrow> bool) \<Rightarrow>
   gsit_status \<Rightarrow> ApiStatus \<Rightarrow> ostream \<Rightarrow> bool \<times> ostream" where
  "checkStatus GSIT_FAILED GSIT_SUCCEEDED comm_status gxp_status cout =
     (let error_string = getErrorString gxp_status;
          c = (if GSIT_FAILED comm_status \<or> GSIT_FAILED (getErrorCode gxp_status)
               then report comm_status gxp_status error_string cout
               else cout);
          success = (GSIT_SUCCEEDED comm_status \<and> GSIT_SUCCEEDED (getErrorCode gxp_status))
      in (success, c))"

section \<open>The operating system and the external API, as the program sees them\<close>

text \<open>
  The calls the program makes to the C runtime, to Win32 and to the GXP API are recorded
  in order. What those calls answer is part of the world the program runs in: the
  environment, the current directory (\<open>None\<close> when the system cannot give it), the
  outcome of creating a process from an executable path (the new process's identifier,
  or the last-error code), and the transport status and application status that
  \<open>gxpConnect\<close> hands back.
\<close>

datatype call =
    Call_getenv string
  | Call_getcwd
  | Call_CreateProcess string
  | Call_GetLastError
  | Call_InitializeApi
  | Call_UninitializeApi
  | Call_gxpConnect
  | Call_gxpDisconnect

datatype create_result = Created "32 word" | Refused "32 word"

record world =
  environ :: "string \<Rightarrow> string option"
  cur_dir :: "string option"
  process_creation :: "string \<Rightarrow> create_result"
  connect_reply :: "gsit_status \<times> ApiStatus"
  cout :: ostream
  calls :: "call list"

definition called :: "call \<Rightarrow> world \<Rightarrow> world" where
  "called c w = w\<lparr>calls := calls w @ [c]\<rparr>"

definition getenv :: "string \<Rightarrow> world \<Rightarrow> string option \<times> world" where
  "getenv name w = (environ w name, called (Call_getenv name) w)"

text \<open>\<open>_getcwd(buffer, maxlen)\<close> fails when the directory and its terminating
  \<open>'\0'\<close> do not fit into \<open>maxlen\<close> characters.\<close>

definition getcwd :: "nat \<Rightarrow> world \<Rightarrow> string option \<times> world" where
  "getcwd maxlen w =
     (case cur_dir w of
        None \<Rightarrow> (None, called Call_getcwd w)
      | Some d \<Rightarrow>
          if length d + 1 \<le> maxlen then (Some d, called Call_getcwd w)
          else (None, called Call_getcwd w))"

definition CreateProcess :: "string \<Rightarrow> world \<Rightarrow> create_result \<times> world" where
  "CreateProcess exe w = (process_creation w exe, called (Call_CreateProcess exe) w)"

section \<open>\<open>OsUtil\<close> (OsUtil.cpp)\<close>

definition MAX_PATH_LENGTH :: nat where
  "MAX_PATH_LENGTH = 2048"

definition backslash :: char where
  "backslash = CHR 0x5C"

text \<open>\<open>OsUtil::StartApplication\<close>. The argument is a \<open>const char*\<close>: \<open>None\<close> is the
  null pointer. The result type \<open>pid_t\<close> is \<open>int\<close>; \<open>return false\<close> is 0.\<close>

definition StartApplication :: "string option \<Rightarrow> world \<Rightarrow> int \<times> world" where
  "StartApplication application w =
     (case application of
        None \<Rightarrow> (0, w)
      | Some a \<Rightarrow>
          if length a = 0 then (0, w)
          else
            let exe = a @ ''.exe'' in
            (case CreateProcess exe w of
               (Created process_id, w1) \<Rightarrow> (10, w1)
             | (Refused last_error, w1) \<Rightarrow>
                 (0, (called Call_GetLastError w1)
                       \<lparr>cout := endl (put_long last_error
                                  (put_str ''REPORTED ERROR: '' (cout w1)))\<rparr>)))"

text \<open>\<open>OsUtil::StartGxpApplication\<close>.\<close>

definition StartGxpApplication :: "world \<Rightarrow> int \<times> world" where
  "StartGxpApplication w =
     (case getenv ''SOCETGXPEXE'' w of
        (None, w1) \<Rightarrow>
          (0, w1\<lparr>cout := endl (put_str ''SOCETGXPEXE is not set.'' (cout w1))\<rparr>)
      | (Some path, w1) \<Rightarrow>
          let gxp_path = path @ (backslash # ''SocetGxp'')
          in StartApplication (Some gxp_path) w1)"

text \<open>\<open>OsUtil::WaitOnProcess\<close> returns at once.\<close>

definition WaitOnProcess :: "int \<Rightarrow> world \<Rightarrow> world" where
  "WaitOnProcess pid w = w"

text \<open>\<open>OsUtil::NormalizeLocalPath\<close>. The argument is a C string the source passes to
  \<open>strlen\<close> at once; a null pointer is no input of the model.\<close>

definition NormalizeLocalPath :: "string \<Rightarrow> world \<Rightarrow> string \<times> world" where
  "NormalizeLocalPath path w =
     (if length path = 0 then ([], w)
      else
        let drive_set = (length path > 3 \<and> path ! 1 = CHR '':'' \<and> path ! 2 = backslash) in
        if \<not> drive_set then
          (case getcwd MAX_PATH_LENGTH w of
             (None, w1) \<Rightarrow> ([], w1)
           | (Some cur_path, w1) \<Rightarrow> ((cur_path @ [backslash]) @ path, w1))
        else ([] @ path, w))"

section \<open>The driver (GXPTemplate.cpp)\<close>

definition InitializeApi :: "world \<Rightarrow> world" where
  "InitializeApi w = called Call_InitializeApi w"

definition UninitializeApi :: "world \<Rightarrow> world" where
  "UninitializeApi w = called Call_UninitializeApi w"

definition gxpConnect :: "world \<Rightarrow> (gsit_status \<times> ApiStatus) \<times> world" where
  "gxpConnect w = (connect_reply w, called Call_gxpConnect w)"

definition gxpDisconnect :: "world \<Rightarrow> world" where
  "gxpDisconnect w = called Call_gxpDisconnect w"

text \<open>\<open>exec\<close>: the status that \<open>gxpConnect\<close> returns is stored in \<open>comm_status\<close>
  and \<open>status\<close> and not read again.\<close>

definition exec :: "world \<Rightarrow> world" where
  "exec w =
     (case gxpConnect w of
        ((comm_status, status), w1) \<Rightarrow> gxpDisconnect w1)"

text \<open>\<open>_tmain\<close>: the arguments are not read; the result is the exit code.\<close>

definition tmain :: "world \<Rightarrow> int \<times> world" where
  "tmain w = (let w1 = InitializeApi w; w2 = exec w1; w3 = UninitializeApi w2 in (0, w3))"

section \<open>Reference values for the comparison with the specification\<close>


text \<open>Modelled from the spec: the macros \<open>GSIT_SUCCEEDED\<close> and \<open>GSIT_FAILED\<close> of the
  external API header, which the sources do not contain. The specification takes error
  code 0 as success and a non-zero code as failure. This instance only serves to run
  \<open>checkStatus\<close> on concrete inputs; the theorems hold for every pair of macros.\<close>

definition spec_GSIT_SUCCEEDED :: "gsit_status \<Rightarrow> bool" where
  "spec_GSIT_SUCCEEDED s = (s = 0)"

definition spec_GSIT_FAILED :: "gsit_status \<Rightarrow> bool" where
  "spec_GSIT_FAILED s = (s \<noteq> 0)"

text \<open>A world for concrete runs: the installation variable set, a current directory,
  process creation refused for every path, and a connect that fails at the transport
  level.\<close>

definition world0 :: world where
  "world0 =
     \<lparr>environ = (\<lambda>n. if n = ''SOCETGXPEXE'' then Some (''C:'' @ backslash # ''install'') else None),
      cur_dir = Some (''C:'' @ backslash # ''work''),
      process_creation = (\<lambda>exe. Refused 2),
      connect_reply = (1, \<lparr>errorCode = 0, errorString = []\<rparr>),
      cout = cout_init,
      calls = []\<rparr>"

section \<open>Hexadecimal fields\<close>
















section \<open>What the diagnostic block writes\<close>

text \<open>The block of Util.cpp lines 44 to 63 appends the banner, the two hexadecimal
  lines, the message line when there is a message, and two empty lines; it puts the
  caller's fill and width back and leaves all basefield flags cleared. The two numbers
  are written into a field of width 8 with fill \<open>0\<close>, under the caller's flags with the
  basefield replaced by \<open>hex\<close>.\<close>

lemma padded_width0: "os_width os = 0 \<Longrightarrow> padded os s = s"
  by (simp add: padded_def fill_chars_def)

lemma put_str_width0:
  "os_width os = 0 \<Longrightarrow> put_str s os = os\<lparr>os_text := os_text os @ s\<rparr>"
  by (simp add: put_str_def put_raw_def padded_width0)

lemma hex_line:
  assumes w: "os_width c = 0"
  shows "resetiosflags {ios_hex}
           (endl (put_long v (setfill CHR ''0'' (setw 8 (hex (put_str s c)))))) =
         c\<lparr>os_text := os_text c @ s
              @ long_field (insert ios_hex (os_flags c - basefield)) 8 (CHR ''0'') v @ [CHR 0x0A],
           os_fill := CHR ''0'', os_flags := os_flags c - basefield\<rparr>"
proof -
  have f: "(os_flags c - basefield) \<union> ({ios_hex} \<inter> basefield) = insert ios_hex (os_flags c - basefield)"
    by (auto simp: basefield_def)
  have g: "insert ios_hex (os_flags c - basefield) - {ios_hex} = os_flags c - basefield"
    by (auto simp: basefield_def)
  show ?thesis
    using w by (simp add: resetiosflags_def endl_def put_raw_def setfill_def setw_def hex_def
        setf_def put_str_width0 put_long_def f g)
qed

lemma report_eq:
  "report comm_status gxp_status error_string os =
     os\<lparr>os_text := os_text os @ padded os '' >> ERROR <<'' @ [CHR 0x0A]
          @ ''Communication Error: 0x''
          @ long_field (insert ios_hex (os_flags os - basefield)) 8 (CHR ''0'') comm_status
          @ [CHR 0x0A]
          @ ''GXP Error: 0x''
          @ long_field (insert ios_hex (os_flags os - basefield)) 8 (CHR ''0'')
              (getErrorCode gxp_status)
          @ [CHR 0x0A]
          @ (if error_string = [] then [] else ''GXP Error: '' @ error_string @ [CHR 0x0A])
          @ [CHR 0x0A, CHR 0x0A],
        os_flags := os_flags os - basefield\<rparr>"
proof -
  let ?fl = "insert ios_hex (os_flags os - basefield)"
  define c1 where "c1 = endl (put_str '' >> ERROR <<'' os)"
  define c2 where "c2 = resetiosflags {ios_hex} (endl (put_long comm_status
                (setfill CHR ''0'' (setw 8 (hex (put_str ''Communication Error: 0x'' c1))))))"
  define c3 where "c3 = resetiosflags {ios_hex} (endl (put_long (getErrorCode gxp_status)
                (setfill CHR ''0'' (setw 8 (hex (put_str ''GXP Error: 0x'' c2))))))"
  define c4 where "c4 = (if length error_string \<noteq> 0
               then endl (put_str error_string (put_str ''GXP Error: '' c3)) else c3)"
  have r: "report comm_status gxp_status error_string os =
      (endl (endl c4))\<lparr>os_fill := os_fill os, os_width := os_width os\<rparr>"
    by (simp add: report_def Let_def c1_def c2_def c3_def c4_def)
  have e1: "c1 = os\<lparr>os_text := os_text os @ padded os '' >> ERROR <<'' @ [CHR 0x0A], os_width := 0\<rparr>"
    by (simp add: c1_def endl_def put_str_def put_raw_def)
  have e2: "c2 = os\<lparr>os_text := os_text c1 @ ''Communication Error: 0x''
         @ long_field ?fl 8 (CHR ''0'') comm_status @ [CHR 0x0A],
       os_width := 0, os_fill := CHR ''0'', os_flags := os_flags os - basefield\<rparr>"
    unfolding c2_def by (subst hex_line) (simp_all add: e1)
  have e3: "c3 = os\<lparr>os_text := os_text c2 @ ''GXP Error: 0x''
         @ long_field ?fl 8 (CHR ''0'') (getErrorCode gxp_status) @ [CHR 0x0A],
       os_width := 0, os_fill := CHR ''0'', os_flags := os_flags os - basefield\<rparr>"
    unfolding c3_def by (subst hex_line) (auto simp add: e2)
  have e4: "c4 = c3\<lparr>os_text := os_text c3 @
        (if error_string = [] then [] else ''GXP Error: '' @ error_string @ [CHR 0x0A])\<rparr>"
    by (simp add: c4_def e3 put_str_width0 endl_def put_raw_def)
  show ?thesis
    by (simp add: r e4 e3 e2 e1 endl_def put_raw_def)
qed



section \<open>Properties of \<open>Util::checkStatus\<close>\<close>

text \<open>
  C1: for every transport status and every application status object, \<open>checkStatus\<close>
  returns true if and only if the transport status satisfies \<open>GSIT_SUCCEEDED\<close> and the
  application status's error code satisfies \<open>GSIT_SUCCEEDED\<close>; in particular a
  successful transport with a failed application code is false, and a failed transport
  with a successful application code is false.
\<close>

theorem checkStatus_result:
  "fst (checkStatus GSIT_FAILED GSIT_SUCCEEDED comm_status gxp_status os) =
     (GSIT_SUCCEEDED comm_status \<and> GSIT_SUCCEEDED (getErrorCode gxp_status))"
  by (simp add: checkStatus_def Let_def)

text \<open>
  Width and fill: on every input and on both paths, the stream's field width and fill
  character after \<open>checkStatus\<close> are the ones before the call.
\<close>

theorem checkStatus_restores_width_fill:
  "os_width (snd (checkStatus GSIT_FAILED GSIT_SUCCEEDED comm_status gxp_status os)) = os_width os \<and>
   os_fill (snd (checkStatus GSIT_FAILED GSIT_SUCCEEDED comm_status gxp_status os)) = os_fill os"
  by (simp add: checkStatus_def Let_def report_eq)

text \<open>
  Numeric base: when the diagnostic is written, \<open>std::hex\<close> clears the basefield and sets
  \<open>hex\<close>, and \<open>resetiosflags(ios_base::hex)\<close> clears \<open>hex\<close>; the stream is left with no
  basefield flag, whatever the caller had set. Otherwise the flags are untouched.
\<close>

theorem checkStatus_flags:
  "os_flags (snd (checkStatus GSIT_FAILED GSIT_SUCCEEDED comm_status gxp_status os)) =
     (if GSIT_FAILED comm_status \<or> GSIT_FAILED (getErrorCode gxp_status)
      then os_flags os - basefield else os_flags os)"
  by (simp add: checkStatus_def Let_def report_eq)

text \<open>
  C2 asks that the numeric base, the fill character and the field width after any call
  are the ones before it. The code does not keep the base: whenever one of the two
  statuses satisfies \<open>GSIT_FAILED\<close>, the stream comes back with its basefield flags
  cleared, whatever they were.
\<close>

theorem checkStatus_clears_basefield:
  assumes "GSIT_FAILED comm_status \<or> GSIT_FAILED (getErrorCode gxp_status)"
  shows "os_flags (snd (checkStatus GSIT_FAILED GSIT_SUCCEEDED comm_status gxp_status os)) =
     os_flags os - basefield"
  using assms by (simp add: checkStatus_def Let_def report_eq)

text \<open>
  The failing inputs: on the initial stream, whose basefield is \<open>dec\<close>, a call with the
  failed transport status 1 leaves the basefield empty; on a stream the caller has
  switched to \<open>hex\<close>, the same call leaves the basefield empty too, so the caller's
  numbers are printed in decimal from then on.
\<close>

theorem checkStatus_base_not_restored:
  "spec_GSIT_FAILED 1 \<and>
   os_flags cout_init = {ios_dec} \<and>
   os_flags (snd (checkStatus spec_GSIT_FAILED spec_GSIT_SUCCEEDED 1
       \<lparr>errorCode = 0, errorString = []\<rparr> cout_init)) = {} \<and>
   os_flags (hex cout_init) = {ios_hex} \<and>
   os_flags (snd (checkStatus spec_GSIT_FAILED spec_GSIT_SUCCEEDED 1
       \<lparr>errorCode = 0, errorString = []\<rparr> (hex cout_init))) = {}"
proof -
  let ?st = "\<lparr>errorCode = 0, errorString = []\<rparr>"
  have f: "spec_GSIT_FAILED 1"
    by (simp add: spec_GSIT_FAILED_def)
  then have g: "spec_GSIT_FAILED 1 \<or> spec_GSIT_FAILED (getErrorCode ?st)" ..
  have d: "os_flags cout_init = {ios_dec}"
    by (simp add: cout_init_def)
  have x: "os_flags (hex cout_init) = {ios_hex}"
    by (auto simp: cout_init_def hex_def setf_def basefield_def)
  have t1: "os_flags (snd (checkStatus spec_GSIT_FAILED spec_GSIT_SUCCEEDED 1 ?st cout_init)) = {}"
    using checkStatus_clears_basefield [OF g, of spec_GSIT_SUCCEEDED cout_init]
    by (simp add: d basefield_def)
  have t2: "os_flags (snd (checkStatus spec_GSIT_FAILED spec_GSIT_SUCCEEDED 1 ?st (hex cout_init))) = {}"
    using checkStatus_clears_basefield [OF g, of spec_GSIT_SUCCEEDED "hex cout_init"]
    by (simp add: x basefield_def)
  show ?thesis
    by (rule conjI [OF f conjI [OF d conjI [OF t1 conjI [OF x t2]]]])
qed




section \<open>Properties of the driver\<close>

text \<open>
  C3, as the code has it: every run of \<open>_tmain\<close> makes exactly the calls initialize the
  API, connect, disconnect, uninitialize the API, in this order, and returns 0. Nothing
  else changes: the environment is not read, no process is created, and nothing is
  written to the output stream, so neither the connect nor the disconnect result is
  checked.
\<close>

theorem tmain_run:
  "tmain w = (0, w\<lparr>calls := calls w @
      [Call_InitializeApi, Call_gxpConnect, Call_gxpDisconnect, Call_UninitializeApi]\<rparr>)"
  by (simp add: tmain_def exec_def InitializeApi_def UninitializeApi_def gxpConnect_def
      gxpDisconnect_def called_def Let_def split: prod.split)

text \<open>
  C3 as the specification states it (read the installation variable, launch, initialize,
  connect, validate the connect result) fails: in the world \<open>world0\<close> the connect fails
  at the transport level, and the run consists of the four API calls only. The
  installation variable is not read (\<open>StartGxpApplication\<close> would read it), and the
  output stream stays empty, where \<open>checkStatus\<close> on the connect result would have
  written its diagnostic.
\<close>

theorem tmain_no_launch_no_validation:
  "calls (snd (tmain world0)) =
     [Call_InitializeApi, Call_gxpConnect, Call_gxpDisconnect, Call_UninitializeApi] \<and>
   Call_getenv ''SOCETGXPEXE'' \<notin> set (calls (snd (tmain world0))) \<and>
   Call_getenv ''SOCETGXPEXE'' \<in> set (calls (snd (StartGxpApplication world0))) \<and>
   spec_GSIT_FAILED (fst (connect_reply world0)) \<and>
   os_text (cout (snd (tmain world0))) = [] \<and>
   os_text (snd (checkStatus spec_GSIT_FAILED spec_GSIT_SUCCEEDED
       (fst (connect_reply world0)) (snd (connect_reply world0)) (cout world0))) \<noteq> []"
  by (simp add: tmain_def exec_def InitializeApi_def UninitializeApi_def gxpConnect_def
      gxpDisconnect_def called_def Let_def world0_def cout_init_def spec_GSIT_FAILED_def
      checkStatus_def report_eq StartGxpApplication_def getenv_def StartApplication_def
      CreateProcess_def)

text \<open>
  C4: in every world, whatever \<open>gxpConnect\<close> returns, \<open>exec\<close> calls \<open>gxpConnect\<close> and
  then \<open>gxpDisconnect\<close>, and among the calls of a whole run of the driver there is
  exactly one \<open>gxpDisconnect\<close>.
\<close>

theorem exec_disconnects_once:
  "calls (exec w) = calls w @ [Call_gxpConnect, Call_gxpDisconnect] \<and>
   count_list (drop (length (calls w)) (calls (snd (tmain w)))) Call_gxpDisconnect = 1"
  by (simp add: tmain_def exec_def InitializeApi_def UninitializeApi_def gxpConnect_def
      gxpDisconnect_def called_def Let_def split: prod.split)

section \<open>Properties of \<open>OsUtil\<close>\<close>

text \<open>The empty path is answered with the empty string, and nothing is called.\<close>

theorem NormalizeLocalPath_empty:
  "NormalizeLocalPath [] w = ([], w)"
  by (simp add: NormalizeLocalPath_def)

text \<open>
  C6: for every non-empty path that is not of the form: longer than 3 characters, with
  \<open>:\<close> at position 1 and a backslash at position 2, \<open>NormalizeLocalPath\<close> returns the
  current directory, a backslash and the path when \<open>_getcwd\<close> gives the directory, and
  the empty string when \<open>_getcwd\<close> fails.
\<close>

theorem NormalizeLocalPath_relative:
  assumes "path \<noteq> []"
    and "\<not> (3 < length path \<and> path ! 1 = CHR '':'' \<and> path ! 2 = backslash)"
  shows "fst (NormalizeLocalPath path w) =
     (case fst (getcwd MAX_PATH_LENGTH w) of
        Some cwd \<Rightarrow> cwd @ [backslash] @ path
      | None \<Rightarrow> [])"
  using assms by (auto simp: NormalizeLocalPath_def Let_def split: prod.split option.split)

text \<open>The theorem at the path \<open>data\<close>, with the current directory \<open>C:\work\<close> and with
  no current directory.\<close>

theorem NormalizeLocalPath_relative_witness:
  "''data'' \<noteq> [] \<and>
   \<not> (3 < length ''data'' \<and> ''data'' ! 1 = CHR '':'' \<and> ''data'' ! 2 = backslash) \<and>
   fst (NormalizeLocalPath ''data'' world0) = ''C:'' @ [backslash] @ ''work'' @ [backslash] @ ''data'' \<and>
   fst (NormalizeLocalPath ''data'' (world0\<lparr>cur_dir := None\<rparr>)) = []"
proof -
  have a: "''data'' \<noteq> []" by simp
  have b: "\<not> (3 < length ''data'' \<and> ''data'' ! 1 = CHR '':'' \<and> ''data'' ! 2 = backslash)" by simp
  have c: "fst (NormalizeLocalPath ''data'' world0) = ''C:'' @ [backslash] @ ''work'' @ [backslash] @ ''data''"
    using NormalizeLocalPath_relative [OF a b, of world0]
    by (simp add: getcwd_def world0_def MAX_PATH_LENGTH_def)
  have d: "fst (NormalizeLocalPath ''data'' (world0\<lparr>cur_dir := None\<rparr>)) = []"
    using NormalizeLocalPath_relative [OF a b, of "world0\<lparr>cur_dir := None\<rparr>"]
    by (simp add: getcwd_def)
  show ?thesis by (rule conjI [OF a conjI [OF b conjI [OF c d]]])
qed

text \<open>
  C7: a path longer than 3 characters with \<open>:\<close> at position 1 and a backslash at
  position 2 is returned unchanged, and nothing is called.
\<close>

theorem NormalizeLocalPath_absolute:
  assumes "3 < length path" and "path ! 1 = CHR '':''" and "path ! 2 = backslash"
  shows "NormalizeLocalPath path w = (path, w)"
  using assms by (auto simp: NormalizeLocalPath_def Let_def)

text \<open>The theorem at the path \<open>C:\data\<close>.\<close>

theorem NormalizeLocalPath_absolute_witness:
  "3 < length (''C:'' @ backslash # ''data'') \<and>
   (''C:'' @ backslash # ''data'') ! 1 = CHR '':'' \<and>
   (''C:'' @ backslash # ''data'') ! 2 = backslash \<and>
   NormalizeLocalPath (''C:'' @ backslash # ''data'') world0 = (''C:'' @ backslash # ''data'', world0)"
proof -
  let ?p = "''C:'' @ backslash # ''data''"
  have a: "3 < length ?p" by simp
  have b: "?p ! 1 = CHR '':''" by simp
  have c: "?p ! 2 = backslash" by simp
  show ?thesis using a b c NormalizeLocalPath_absolute [OF a b c, of world0] by blast
qed

text \<open>
  C8: when \<open>SOCETGXPEXE\<close> is not set, \<open>StartGxpApplication\<close> returns 0, its only call is
  the \<open>getenv\<close> (no process creation), and it writes the line
  \<open>SOCETGXPEXE is not set.\<close>; when the variable is set to a directory, the result is
  that of \<open>StartApplication\<close> on the directory, a backslash and \<open>SocetGxp\<close>.
\<close>

theorem StartGxpApplication_cases:
  "(environ w ''SOCETGXPEXE'' = None \<longrightarrow>
      fst (StartGxpApplication w) = 0 \<and>
      calls (snd (StartGxpApplication w)) = calls w @ [Call_getenv ''SOCETGXPEXE''] \<and>
      os_text (cout (snd (StartGxpApplication w))) =
        os_text (cout w) @ padded (cout w) ''SOCETGXPEXE is not set.'' @ [CHR 0x0A]) \<and>
   (\<forall>dir. environ w ''SOCETGXPEXE'' = Some dir \<longrightarrow>
      StartGxpApplication w =
        StartApplication (Some (dir @ [backslash] @ ''SocetGxp''))
          (called (Call_getenv ''SOCETGXPEXE'') w))"
  by (simp add: StartGxpApplication_def getenv_def called_def endl_def put_str_def put_raw_def Let_def)

text \<open>The theorem in a world without the variable, and in \<open>world0\<close>, where the variable
  is \<open>C:\install\<close> and process creation is refused.\<close>

theorem StartGxpApplication_cases_witness:
  "environ (world0\<lparr>environ := (\<lambda>n. None)\<rparr>) ''SOCETGXPEXE'' = None \<and>
   fst (StartGxpApplication (world0\<lparr>environ := (\<lambda>n. None)\<rparr>)) = 0 \<and>
   calls (snd (StartGxpApplication (world0\<lparr>environ := (\<lambda>n. None)\<rparr>))) = [Call_getenv ''SOCETGXPEXE''] \<and>
   os_text (cout (snd (StartGxpApplication (world0\<lparr>environ := (\<lambda>n. None)\<rparr>)))) =
     ''SOCETGXPEXE is not set.'' @ [CHR 0x0A] \<and>
   environ world0 ''SOCETGXPEXE'' = Some (''C:'' @ backslash # ''install'') \<and>
   calls (snd (StartGxpApplication world0)) =
     [Call_getenv ''SOCETGXPEXE'',
      Call_CreateProcess (''C:'' @ backslash # ''install'' @ backslash # ''SocetGxp.exe''),
      Call_GetLastError]"
proof -
  let ?u = "world0\<lparr>environ := (\<lambda>n. None)\<rparr>"
  have a: "environ ?u ''SOCETGXPEXE'' = None" by simp
  have b: "environ world0 ''SOCETGXPEXE'' = Some (''C:'' @ backslash # ''install'')"
    by (simp add: world0_def)
  show ?thesis
    using a b StartGxpApplication_cases [of ?u] StartGxpApplication_cases [of world0]
    by (simp add: world0_def cout_init_def padded_width0 StartApplication_def CreateProcess_def
        called_def)
qed

text \<open>
  C9: for the null pointer and for the empty string, \<open>StartApplication\<close> returns 0 (the
  source's \<open>return false\<close>) and leaves the world as it is: no process creation is
  attempted and nothing is written.
\<close>

theorem StartApplication_empty:
  "StartApplication None w = (0, w) \<and> StartApplication (Some []) w = (0, w)"
  by (simp add: StartApplication_def)

text \<open>
  C10: \<open>StartApplication\<close> returns 0 or 10. It returns 10 exactly when the argument is
  a non-empty string and the process is created; the identifier of the created process
  has no part in the result, which is 10 for every identifier.
\<close>

theorem StartApplication_result:
  "fst (StartApplication application w) \<in> {0, 10} \<and>
   (fst (StartApplication application w) = 10) =
     (\<exists>a process_id. application = Some a \<and> a \<noteq> [] \<and>
        process_creation w (a @ ''.exe'') = Created process_id) \<and>
   (\<forall>a process_id. application = Some a \<and> a \<noteq> [] \<and>
        process_creation w (a @ ''.exe'') = Created process_id \<longrightarrow>
        StartApplication application w = (10, called (Call_CreateProcess (a @ ''.exe'')) w))"
  by (auto simp: StartApplication_def CreateProcess_def Let_def
      split: option.split create_result.split)

text \<open>The theorem for the name \<open>gxp\<close>: 10 where the created process has the identifier
  4711, and 0 where the creation is refused.\<close>

theorem StartApplication_result_witness:
  "process_creation (world0\<lparr>process_creation := (\<lambda>exe. Created 4711)\<rparr>) (''gxp'' @ ''.exe'') = Created 4711 \<and>
   fst (StartApplication (Some ''gxp'') (world0\<lparr>process_creation := (\<lambda>exe. Created 4711)\<rparr>)) = 10 \<and>
   fst (StartApplication (Some ''gxp'') world0) = 0"
  using StartApplication_result [of "Some ''gxp''" "world0\<lparr>process_creation := (\<lambda>exe. Created 4711)\<rparr>"]
    StartApplication_result [of "Some ''gxp''" world0]
  by (auto simp: world0_def)

end
